theory Spec2Isabelle
  imports Main
begin

section \<open>The usePipeline hook (hooks/usePipeline.ts)\<close>

subsection \<open>Types of the source\<close>

text \<open>
  \<^verbatim>\<open>type PipelineTask = 'sentiment-analysis' | 'text-generation' | ...\<close> and
  \<^verbatim>\<open>interface UsePipelineOptions { model?: string; device?: 'auto' | 'webgpu' | 'wasm' }\<close>.
  An optional field that is absent is \<open>None\<close>.
\<close>

datatype PipelineTask =
  SentimentAnalysis | TextGeneration | ImageClassification | AutomaticSpeechRecognition

datatype Device = Auto | Webgpu | Wasm

record UsePipelineOptions =
  model :: "string option"
  device :: "Device option"

text \<open>
  A value thrown by the external library, as the two catch blocks look at it:
  \<^verbatim>\<open>err instanceof Error ? err.message : fallback\<close>. Any value can be thrown: an
  instance of Error with its message, a string (\<^verbatim>\<open>Promise.reject("oom")\<close>), or
  anything else.
\<close>

datatype thrown = Error string | NonError | StringValue string

fun message_or :: "thrown \<Rightarrow> string \<Rightarrow> string" where
  "message_or (Error m) fallback = m"
| "message_or NonError fallback = fallback"
| "message_or (StringValue v) fallback = fallback"

text \<open>\<^verbatim>\<open>options.device || 'auto'\<close>\<close>

fun device_or_auto :: "Device option \<Rightarrow> Device" where
  "device_or_auto None = Auto"
| "device_or_auto (Some d) = d"

subsection \<open>Control flow of an async function body\<close>

text \<open>
  A piece of an async function body either completes normally or throws; the state
  written so far is kept in both cases. \<open>await\<close> on a settled promise continues with
  its value or throws its rejection; \<open>try_catch\<close> and \<open>try_finally\<close> are the
  statements of the language. The promise an async function returns is fulfilled when
  its body completes normally and rejected when it throws.
\<close>

datatype 's completion = Normal 's | Throw thrown 's

datatype promise = Fulfilled | Rejected thrown

definition await :: "thrown + 'a \<Rightarrow> ('a \<Rightarrow> 's \<Rightarrow> 's completion) \<Rightarrow> 's \<Rightarrow> 's completion" where
  "await settled k s = (case settled of Inl e \<Rightarrow> Throw e s | Inr v \<Rightarrow> k v s)"

definition try_catch :: "'s completion \<Rightarrow> (thrown \<Rightarrow> 's \<Rightarrow> 's completion) \<Rightarrow> 's completion" where
  "try_catch c handler = (case c of Normal s \<Rightarrow> Normal s | Throw e s \<Rightarrow> handler e s)"

definition try_finally :: "'s completion \<Rightarrow> ('s \<Rightarrow> 's) \<Rightarrow> 's completion" where
  "try_finally c fin = (case c of Normal s \<Rightarrow> Normal (fin s) | Throw e s \<Rightarrow> Throw e (fin s))"

fun state_of :: "'s completion \<Rightarrow> 's" where
  "state_of (Normal s) = s"
| "state_of (Throw e s) = s"

fun promise_of :: "'s completion \<Rightarrow> promise" where
  "promise_of (Normal s) = Fulfilled"
| "promise_of (Throw e s) = Rejected e"

subsection \<open>State of one hook instance\<close>

text \<open>
  The dependency array \<^verbatim>\<open>[task, options.model, options.device]\<close> of the effect, and
  what React holds for the effect: nothing before the first render, after a render the
  dependencies of the last effect run together with the cleanup function it returned
  (identified by the number of the effect run whose \<^verbatim>\<open>cancelled\<close> it closes over),
  nothing again after the unmount.
\<close>

type_synonym deps = "PipelineTask \<times> string option \<times> Device option"

datatype phase = Fresh | Mounted deps nat | Unmounted

text \<open>
  The four \<^verbatim>\<open>useState\<close> cells, the ref, and the closures that are alive:
  \<open>cancelled\<close> is the local variable of each effect run, \<open>loads\<close> the calls of
  \<^verbatim>\<open>pipeline(...)\<close> made so far (effect run \<open>n\<close> made call \<open>n\<close>), \<open>awaiting_load\<close>
  the runs of \<^verbatim>\<open>initPipeline\<close> suspended at their await, \<open>calls\<close> the calls of the
  handle made so far and \<open>awaiting_call\<close> the runs of \<^verbatim>\<open>run\<close> suspended at theirs.
\<close>

record ('h, 'i, 'r) hook =
  ready :: bool
  loading :: bool
  error :: "string option"
  output' :: "'r option"
  pipelineRef :: "'h option"
  phase :: phase
  cancelled :: "nat \<Rightarrow> bool"
  loads :: "(PipelineTask \<times> string option \<times> Device) list"
  awaiting_load :: "nat list"
  calls :: "('h \<times> 'i) list"
  awaiting_call :: "nat list"

definition usePipeline_init :: "('h, 'i, 'r) hook" where
  "usePipeline_init =
     \<lparr>ready = False, loading = False, error = None, output' = None, pipelineRef = None,
      phase = Fresh, cancelled = (\<lambda>n. False), loads = [], awaiting_load = [],
      calls = [], awaiting_call = []\<rparr>"

subsection \<open>The effect: initPipeline and its cleanup\<close>

text \<open>
  \<^verbatim>\<open>initPipeline\<close> up to its await: \<^verbatim>\<open>setError(null)\<close>, then the call of
  \<^verbatim>\<open>pipeline(task, options.model, {device: options.device || 'auto'})\<close>.
\<close>

definition initPipeline_begin ::
  "PipelineTask \<Rightarrow> UsePipelineOptions \<Rightarrow> ('h, 'i, 'r) hook \<Rightarrow> ('h, 'i, 'r) hook" where
  "initPipeline_begin task options s =
     s\<lparr>error := None,
       loads := loads s @ [(task, model options, device_or_auto (device options))],
       awaiting_load := awaiting_load s @ [length (loads s)]\<rparr>"

text \<open>\<^verbatim>\<open>initPipeline\<close> of effect run \<open>eid\<close> from its await on, with its try and catch.\<close>

definition initPipeline_resume ::
  "nat \<Rightarrow> thrown + 'h \<Rightarrow> ('h, 'i, 'r) hook \<Rightarrow> ('h, 'i, 'r) hook completion" where
  "initPipeline_resume eid settled s =
     try_catch
       (await settled
          (\<lambda>pipe s. Normal (if \<not> cancelled s eid
                             then s\<lparr>pipelineRef := Some pipe, ready := True\<rparr>
                             else s)) s)
       (\<lambda>err s. Normal (if \<not> cancelled s eid
                         then s\<lparr>error := Some (message_or err ''Failed to load model'')\<rparr>
                         else s))"

text \<open>One run of the effect body: \<^verbatim>\<open>let cancelled = false; ...; initPipeline();\<close>\<close>

definition effect_run ::
  "PipelineTask \<Rightarrow> UsePipelineOptions \<Rightarrow> ('h, 'i, 'r) hook \<Rightarrow> ('h, 'i, 'r) hook" where
  "effect_run task options s =
     initPipeline_begin task options
       (s\<lparr>cancelled := (cancelled s)(length (loads s) := False),
          phase := Mounted (task, model options, device options) (length (loads s))\<rparr>)"

text \<open>The function the effect returns: \<^verbatim>\<open>cancelled = true\<close>.\<close>

definition cleanup :: "nat \<Rightarrow> ('h, 'i, 'r) hook \<Rightarrow> ('h, 'i, 'r) hook" where
  "cleanup eid s = s\<lparr>cancelled := (cancelled s)(eid := True)\<rparr>"

text \<open>
  A render of the component with the given arguments. The first render runs the effect;
  a later one runs the previous cleanup and the effect again when a dependency changed,
  and nothing otherwise.
\<close>

definition render ::
  "PipelineTask \<Rightarrow> UsePipelineOptions \<Rightarrow> ('h, 'i, 'r) hook \<Rightarrow> ('h, 'i, 'r) hook" where
  "render task options s =
     (case phase s of
        Fresh \<Rightarrow> effect_run task options s
      | Mounted d eid \<Rightarrow>
          if d = (task, model options, device options) then s
          else effect_run task options (cleanup eid s)
      | Unmounted \<Rightarrow> s)"

definition unmount :: "('h, 'i, 'r) hook \<Rightarrow> ('h, 'i, 'r) hook" where
  "unmount s =
     (case phase s of
        Fresh \<Rightarrow> s
      | Mounted d eid \<Rightarrow> (cleanup eid s)\<lparr>phase := Unmounted\<rparr>
      | Unmounted \<Rightarrow> s)"

subsection \<open>run and reset\<close>

text \<open>
  \<^verbatim>\<open>run\<close> up to its await: it has returned a settled promise (the early return), or it
  is suspended on call number \<open>n\<close> of the handle.
\<close>

datatype run_status = Returned promise | Suspended nat

definition run :: "'i \<Rightarrow> ('h, 'i, 'r) hook \<Rightarrow> ('h, 'i, 'r) hook \<times> run_status" where
  "run input s =
     (case pipelineRef s of
        None \<Rightarrow> (s\<lparr>error := Some ''Pipeline not ready''\<rparr>, Returned Fulfilled)
      | Some pipe \<Rightarrow>
          (s\<lparr>loading := True, error := None,
             calls := calls s @ [(pipe, input)],
             awaiting_call := awaiting_call s @ [length (calls s)]\<rparr>,
           Suspended (length (calls s))))"

text \<open>\<^verbatim>\<open>run\<close> from its await on: try, catch and finally.\<close>

definition run_resume ::
  "thrown + 'r \<Rightarrow> ('h, 'i, 'r) hook \<Rightarrow> ('h, 'i, 'r) hook completion" where
  "run_resume settled s =
     try_finally
       (try_catch
          (await settled (\<lambda>result s. Normal (s\<lparr>output' := Some result\<rparr>)) s)
          (\<lambda>err s. Normal (s\<lparr>error := Some (message_or err ''Inference failed'')\<rparr>)))
       (\<lambda>s. s\<lparr>loading := False\<rparr>)"

definition reset :: "('h, 'i, 'r) hook \<Rightarrow> ('h, 'i, 'r) hook" where
  "reset s = s\<lparr>output' := None, error := None\<rparr>"

subsection \<open>Executions\<close>

text \<open>
  What can happen to a hook instance: a render, the unmount, the promise of a load or
  of a handle call settling (which resumes the function suspended on it, once), and the
  caller using \<^verbatim>\<open>run\<close> or \<^verbatim>\<open>reset\<close>.
\<close>

datatype ('h, 'i, 'r) event =
  Render PipelineTask UsePipelineOptions
| Unmount
| LoadSettles nat "thrown + 'h"
| Run 'i
| CallSettles nat "thrown + 'r"
| Reset

definition step :: "('h, 'i, 'r) event \<Rightarrow> ('h, 'i, 'r) hook \<Rightarrow> ('h, 'i, 'r) hook" where
  "step e s =
     (case e of
        Render task options \<Rightarrow> render task options s
      | Unmount \<Rightarrow> unmount s
      | LoadSettles eid settled \<Rightarrow>
          if eid \<in> set (awaiting_load s)
          then state_of (initPipeline_resume eid settled
                 (s\<lparr>awaiting_load := removeAll eid (awaiting_load s)\<rparr>))
          else s
      | Run input \<Rightarrow> fst (run input s)
      | CallSettles cid settled \<Rightarrow>
          if cid \<in> set (awaiting_call s)
          then state_of (run_resume settled
                 (s\<lparr>awaiting_call := removeAll cid (awaiting_call s)\<rparr>))
          else s
      | Reset \<Rightarrow> reset s)"

fun exec :: "('h, 'i, 'r) event list \<Rightarrow> ('h, 'i, 'r) hook \<Rightarrow> ('h, 'i, 'r) hook" where
  "exec [] s = s"
| "exec (e # es) s = exec es (step e s)"

subsection \<open>Callers that wait for the busy flag\<close>

text \<open>
  An execution is gated when \<^verbatim>\<open>run\<close> is only called while no earlier call of it is
  still suspended, as the button of App.tsx does with \<^verbatim>\<open>disabled={!ready || loading}\<close>.
\<close>

fun gated :: "('h, 'i, 'r) event list \<Rightarrow> ('h, 'i, 'r) hook \<Rightarrow> bool" where
  "gated [] s = True"
| "gated (e # es) s =
     ((case e of Run input \<Rightarrow> awaiting_call s = [] | _ \<Rightarrow> True) \<and> gated es (step e s))"

subsection \<open>Invariants of executions\<close>

text \<open>
  Every effect run but the last one has had its cleanup run; the effect React holds is
  the last one; only effect runs that exist are suspended.
\<close>

definition effects_inv :: "('h, 'i, 'r) hook \<Rightarrow> bool" where
  "effects_inv s \<longleftrightarrow>
     (\<forall>eid. Suc eid < length (loads s) \<longrightarrow> cancelled s eid) \<and>
     (case phase s of
        Fresh \<Rightarrow> loads s = []
      | Mounted d eid \<Rightarrow> Suc eid = length (loads s)
      | Unmounted \<Rightarrow> True) \<and>
     (\<forall>eid \<in> set (awaiting_load s). eid < length (loads s))"

text \<open>The ready flag and the ref are written together, and a call needs the ref.\<close>

definition handle_inv :: "('h, 'i, 'r) hook \<Rightarrow> bool" where
  "handle_inv s \<longleftrightarrow>
     (ready s \<longleftrightarrow> pipelineRef s \<noteq> None) \<and>
     (loading s \<longrightarrow> awaiting_call s \<noteq> []) \<and>
     (pipelineRef s = None \<longrightarrow> awaiting_call s = [])"

definition gated_inv :: "('h, 'i, 'r) hook \<Rightarrow> bool" where
  "gated_inv s \<longleftrightarrow> (loading s \<longleftrightarrow> awaiting_call s \<noteq> []) \<and> length (awaiting_call s) \<le> 1"

subsection \<open>Scenarios\<close>

text \<open>
  \<^verbatim>\<open>usePipeline('sentiment-analysis')\<close> as App.tsx calls it, its load fulfilled with
  handle 1; then a render with another task, whose load is outstanding.
\<close>

definition no_options :: UsePipelineOptions where
  "no_options = \<lparr>model = None, device = None\<rparr>"

definition scenario_ready :: "(nat, nat, nat) event list" where
  "scenario_ready = [Render SentimentAnalysis no_options, LoadSettles 0 (Inr 1)]"

definition scenario_reconfigured :: "(nat, nat, nat) event list" where
  "scenario_reconfigured = scenario_ready @ [Render TextGeneration no_options]"

text \<open>Two renders with different tasks before any load has settled.\<close>

definition scenario_superseded :: "(nat, nat, nat) event list" where
  "scenario_superseded =
     [Render SentimentAnalysis no_options, Render TextGeneration no_options]"

text \<open>The ready scenario with one call of the handle outstanding.\<close>

definition scenario_running :: "(nat, nat, nat) event list" where
  "scenario_running = scenario_ready @ [Run 10]"

text \<open>That call fulfilled with result 20.\<close>

definition scenario_answered :: "(nat, nat, nat) event list" where
  "scenario_answered = scenario_running @ [CallSettles 0 (Inr 20)]"

text \<open>A second call of run made before the first has settled, then the first settles.\<close>

definition scenario_overlap :: "(nat, nat, nat) event list" where
  "scenario_overlap = scenario_running @ [Run 11, CallSettles 0 (Inr 20)]"

text \<open>A render with another task while the call of the handle is outstanding.\<close>

definition scenario_stale_call :: "(nat, nat, nat) event list" where
  "scenario_stale_call = scenario_running @ [Render TextGeneration no_options]"

text \<open>The load of the second configuration fails.\<close>

definition scenario_failed_reload :: "(nat, nat, nat) event list" where
  "scenario_failed_reload =
     scenario_reconfigured @ [LoadSettles 1 (Inl (Error ''offline''))]"

section \<open>Properties\<close>

subsection \<open>Basic facts about executions\<close>

lemma exec_append: "exec (es @ fs) s = exec fs (exec es s)"
  by (induction es arbitrary: s) simp_all

lemma exec_snoc: "exec (es @ [e]) s = step e (exec es s)"
  by (simp add: exec_append)

lemmas hook_defs =
  step_def render_def unmount_def effect_run_def cleanup_def initPipeline_begin_def
  initPipeline_resume_def run_def run_resume_def reset_def
  await_def try_catch_def try_finally_def

lemmas scenario_defs =
  scenario_ready_def scenario_reconfigured_def scenario_superseded_def
  scenario_running_def scenario_answered_def no_options_def usePipeline_init_def

lemma removeAll_single: "length xs \<le> 1 \<Longrightarrow> x \<in> set xs \<Longrightarrow> removeAll x xs = []"
  by (cases xs) auto

lemma step_effects_inv: "effects_inv s \<Longrightarrow> effects_inv (step e s)"
  by (cases e)
     (auto simp: effects_inv_def hook_defs less_Suc_eq split: phase.splits sum.splits option.splits)

lemma init_effects_inv: "effects_inv usePipeline_init"
  by (simp add: effects_inv_def usePipeline_init_def)

lemma exec_effects_inv: "effects_inv s \<Longrightarrow> effects_inv (exec es s)"
  by (induction es arbitrary: s) (simp_all add: step_effects_inv)

lemma step_handle_inv: "handle_inv s \<Longrightarrow> handle_inv (step e s)"
  by (cases e)
     (auto simp: handle_inv_def hook_defs split: phase.splits sum.splits option.splits)

lemma init_handle_inv: "handle_inv usePipeline_init"
  by (simp add: handle_inv_def usePipeline_init_def)

lemma exec_handle_inv: "handle_inv s \<Longrightarrow> handle_inv (exec es s)"
  by (induction es arbitrary: s) (simp_all add: step_handle_inv)

lemma step_gated_inv:
  "gated_inv s \<Longrightarrow> (case e of Run input \<Rightarrow> awaiting_call s = [] | _ \<Rightarrow> True)
   \<Longrightarrow> gated_inv (step e s)"
  by (cases e)
     (auto simp: gated_inv_def hook_defs removeAll_single
           split: phase.splits sum.splits option.splits)

lemma exec_gated_inv: "gated_inv s \<Longrightarrow> gated es s \<Longrightarrow> gated_inv (exec es s)"
  by (induction es arbitrary: s) (simp_all add: step_gated_inv)

lemma init_gated_inv: "gated_inv usePipeline_init"
  by (simp add: gated_inv_def usePipeline_init_def)

subsection \<open>Superseded loads\<close>

text \<open>
  C1: in every state an execution of the hook reaches, when the load of an effect run
  other than the most recent one settles (with success or with failure), nothing of the
  state changes except that the suspended initPipeline is gone: the ready flag, the
  stored handle and the error are those of before. Only the most recent
  Construct/Configure call's load can write them.
\<close>

theorem superseded_load_discarded:
  assumes "s = exec es usePipeline_init" and "Suc eid \<noteq> length (loads s)"
  shows "step (LoadSettles eid settled) s = s\<lparr>awaiting_load := removeAll eid (awaiting_load s)\<rparr> \<and>
         ready (step (LoadSettles eid settled) s) = ready s \<and>
         pipelineRef (step (LoadSettles eid settled) s) = pipelineRef s \<and>
         error (step (LoadSettles eid settled) s) = error s"
proof -
  have inv: "effects_inv s"
    using assms(1) by (simp add: exec_effects_inv init_effects_inv)
  have "step (LoadSettles eid settled) s = s\<lparr>awaiting_load := removeAll eid (awaiting_load s)\<rparr>"
  proof (cases "eid \<in> set (awaiting_load s)")
    case False
    then show ?thesis by (simp add: step_def)
  next
    case True
    with inv have "eid < length (loads s)" by (simp add: effects_inv_def)
    with assms(2) have "Suc eid < length (loads s)" by simp
    with inv have "cancelled s eid" by (simp add: effects_inv_def)
    with True show ?thesis
      by (cases settled) (simp_all add: hook_defs)
  qed
  then show ?thesis by simp
qed

theorem superseded_load_discarded_witness:
  "Suc 0 \<noteq> length (loads (exec scenario_superseded usePipeline_init)) \<and>
   0 \<in> set (awaiting_load (exec scenario_superseded usePipeline_init)) \<and>
   \<not> ready (step (LoadSettles 0 (Inr 5)) (exec scenario_superseded usePipeline_init)) \<and>
   pipelineRef (step (LoadSettles 0 (Inr 5)) (exec scenario_superseded usePipeline_init)) = None"
  using superseded_load_discarded
    [of "exec scenario_superseded usePipeline_init" scenario_superseded 0 "Inr 5"]
  by (simp add: scenario_defs hook_defs)

subsection \<open>reset\<close>

text \<open>
  C7: in every state, reset sets output' (lastResult) and error (lastError) to null and
  changes nothing else: the ready flag, the stored handle, the busy flag and all
  outstanding work are as before.
\<close>

theorem reset_frame:
  "output' (reset s) = None \<and> error (reset s) = None \<and>
   ready (reset s) = ready s \<and> pipelineRef (reset s) = pipelineRef s \<and>
   loading (reset s) = loading s \<and> phase (reset s) = phase s \<and>
   cancelled (reset s) = cancelled s \<and> loads (reset s) = loads s \<and>
   awaiting_load (reset s) = awaiting_load s \<and> calls (reset s) = calls s \<and>
   awaiting_call (reset s) = awaiting_call s \<and>
   step Reset s = reset s"
  by (simp add: reset_def step_def)

theorem reset_frame_witness:
  "output' (reset (exec scenario_ready usePipeline_init)) = None \<and>
   error (reset (exec scenario_ready usePipeline_init)) = None \<and>
   ready (reset (exec scenario_ready usePipeline_init)) \<and>
   pipelineRef (reset (exec scenario_ready usePipeline_init)) = Some 1"
  using reset_frame [of "exec scenario_ready usePipeline_init"]
  by (simp add: scenario_defs hook_defs)

subsection \<open>The ready flag\<close>

lemma step_ready: "ready s \<Longrightarrow> ready (step e s)"
  by (cases e) (auto simp: hook_defs split: phase.splits sum.splits option.splits)

text \<open>
  C9: once the ready flag is true it stays true: no event of the hook instance (a
  render with new arguments, the unmount, a load or a handle call settling with success
  or failure, run, reset) sets it back to false.
\<close>

theorem ready_stable: "ready s \<Longrightarrow> ready (exec es s)"
  by (induction es arbitrary: s) (simp_all add: step_ready)

theorem ready_stable_witness:
  "ready (exec scenario_ready usePipeline_init) \<and>
   ready (exec [Render TextGeneration no_options, Run 3, LoadSettles 1 (Inl NonError),
                CallSettles 0 (Inl (Error ''oom'')), Reset, Unmount]
            (exec scenario_ready usePipeline_init))"
  using ready_stable [of "exec scenario_ready usePipeline_init"
      "[Render TextGeneration no_options, Run 3, LoadSettles 1 (Inl NonError),
        CallSettles 0 (Inl (Error ''oom'')), Reset, Unmount]"]
  by (simp add: scenario_defs hook_defs)

subsection \<open>Calls of the handle that outlive their configuration\<close>

text \<open>
  C2: a call of run is outstanding when a render with another task supersedes the
  configuration it was made under. The load path checks \<open>cancelled\<close> before it writes;
  run has no such check: when the old call settles, its result is written to output
  and the busy flag is cleared, and a failure is written to error.
\<close>

theorem stale_call_applied:
  "phase (exec scenario_stale_call usePipeline_init) = Mounted (TextGeneration, None, None) 1 \<and>
   cancelled (exec scenario_stale_call usePipeline_init) 0 \<and>
   awaiting_call (exec scenario_stale_call usePipeline_init) = [0] \<and>
   output' (exec scenario_stale_call usePipeline_init) = None \<and>
   error (exec scenario_stale_call usePipeline_init) = None \<and>
   loading (exec scenario_stale_call usePipeline_init) \<and>
   output' (exec (scenario_stale_call @ [CallSettles 0 (Inr 20)]) usePipeline_init) = Some 20 \<and>
   \<not> loading (exec (scenario_stale_call @ [CallSettles 0 (Inr 20)]) usePipeline_init) \<and>
   error (exec (scenario_stale_call @ [CallSettles 0 (Inl (Error ''oom''))]) usePipeline_init)
     = Some ''oom''"
  by (simp add: scenario_stale_call_def scenario_defs hook_defs)

subsection \<open>Construct/Configure and the load\<close>

text \<open>
  C3 as stated fails. After a first load has succeeded and a render with another task
  has started a second load that is still outstanding, the ready flag is true, the
  loading flag is false, the first handle is still stored and run calls it; when the
  second load then fails, the error is set but the ready flag stays true and the first
  handle stays stored.
\<close>

theorem reconfigure_keeps_ready_counterexample:
  "awaiting_load (exec scenario_reconfigured usePipeline_init) = [1] \<and>
   \<not> cancelled (exec scenario_reconfigured usePipeline_init) 1 \<and>
   ready (exec scenario_reconfigured usePipeline_init) \<and>
   \<not> loading (exec scenario_reconfigured usePipeline_init) \<and>
   pipelineRef (exec scenario_reconfigured usePipeline_init) = Some 1 \<and>
   snd (run 10 (exec scenario_reconfigured usePipeline_init)) = Suspended 0 \<and>
   error (exec (scenario_reconfigured @ [LoadSettles 1 (Inl (Error ''offline''))]) usePipeline_init)
     = Some ''offline'' \<and>
   ready (exec (scenario_reconfigured @ [LoadSettles 1 (Inl (Error ''offline''))]) usePipeline_init) \<and>
   pipelineRef (exec (scenario_reconfigured @ [LoadSettles 1 (Inl (Error ''offline''))]) usePipeline_init)
     = Some 1"
  by (simp add: scenario_defs hook_defs)

text \<open>
  C3, amended: a Construct/Configure call (the first render, or a render with a changed
  task, model or device) clears the error and starts a load, and leaves the ready flag,
  the busy flag, the output and the stored handle as they were. When the load of an
  effect run that is not cancelled succeeds, the handle is stored and ready becomes
  true; when it fails, the error becomes the failure's message (or the text
  "Failed to load model" when the rejection is not an Error) and the ready flag and the
  stored handle stay as they were.
\<close>

theorem configure_and_load_transitions:
  "((phase s = Fresh \<or> (\<exists>d c. phase s = Mounted d c \<and> d \<noteq> (task, model options, device options)))
     \<longrightarrow> error (render task options s) = None \<and>
         ready (render task options s) = ready s \<and>
         loading (render task options s) = loading s \<and>
         pipelineRef (render task options s) = pipelineRef s \<and>
         output' (render task options s) = output' s \<and>
         loads (render task options s)
           = loads s @ [(task, model options, device_or_auto (device options))] \<and>
         awaiting_load (render task options s) = awaiting_load s @ [length (loads s)] \<and>
         \<not> cancelled (render task options s) (length (loads s))) \<and>
   (eid \<in> set (awaiting_load s) \<and> \<not> cancelled s eid
     \<longrightarrow> step (LoadSettles eid (Inr pipe)) s
           = s\<lparr>awaiting_load := removeAll eid (awaiting_load s),
               pipelineRef := Some pipe, ready := True\<rparr> \<and>
         step (LoadSettles eid (Inl err)) s
           = s\<lparr>awaiting_load := removeAll eid (awaiting_load s),
               error := Some (message_or err ''Failed to load model'')\<rparr>)"
  by (auto simp: hook_defs split: phase.splits)

theorem configure_and_load_transitions_witness:
  "phase (usePipeline_init :: (nat, nat, nat) hook) = Fresh \<and>
   \<not> ready (render SentimentAnalysis no_options (usePipeline_init :: (nat, nat, nat) hook)) \<and>
   \<not> loading (render SentimentAnalysis no_options (usePipeline_init :: (nat, nat, nat) hook)) \<and>
   awaiting_load (render SentimentAnalysis no_options (usePipeline_init :: (nat, nat, nat) hook)) = [0] \<and>
   1 \<in> set (awaiting_load (exec scenario_reconfigured usePipeline_init)) \<and>
   \<not> cancelled (exec scenario_reconfigured usePipeline_init) 1 \<and>
   pipelineRef (step (LoadSettles 1 (Inr 2)) (exec scenario_reconfigured usePipeline_init)) = Some 2 \<and>
   ready (step (LoadSettles 1 (Inr 2)) (exec scenario_reconfigured usePipeline_init)) \<and>
   error (step (LoadSettles 1 (Inl NonError)) (exec scenario_reconfigured usePipeline_init))
     = Some ''Failed to load model'' \<and>
   pipelineRef (step (LoadSettles 1 (Inl NonError)) (exec scenario_reconfigured usePipeline_init)) = Some 1"
  using configure_and_load_transitions
      [of "usePipeline_init :: (nat, nat, nat) hook" SentimentAnalysis no_options 0 0 NonError]
    configure_and_load_transitions
      [of "exec scenario_reconfigured usePipeline_init" SentimentAnalysis no_options 1 2 NonError]
  by (simp add: scenario_defs hook_defs)

subsection \<open>run without a handle\<close>

text \<open>
  C4 as stated fails after a reconfiguration from ready. While the load of the new
  configuration is outstanding (status loading), and again after that load has failed
  (status failed), the handle of the previous configuration is still stored: run does
  not set "Pipeline not ready" but clears the error, calls that handle and suspends.
\<close>

theorem invoke_while_not_ready_counterexample:
  "awaiting_load (exec scenario_reconfigured usePipeline_init) = [1] \<and>
   \<not> cancelled (exec scenario_reconfigured usePipeline_init) 1 \<and>
   snd (run 10 (exec scenario_reconfigured usePipeline_init)) = Suspended 0 \<and>
   calls (fst (run 10 (exec scenario_reconfigured usePipeline_init))) = [(1, 10)] \<and>
   error (fst (run 10 (exec scenario_reconfigured usePipeline_init))) = None \<and>
   awaiting_load (exec scenario_failed_reload usePipeline_init) = [] \<and>
   error (exec scenario_failed_reload usePipeline_init) = Some ''offline'' \<and>
   snd (run 10 (exec scenario_failed_reload usePipeline_init)) = Suspended 0 \<and>
   calls (fst (run 10 (exec scenario_failed_reload usePipeline_init))) = [(1, 10)] \<and>
   error (fst (run 10 (exec scenario_failed_reload usePipeline_init))) = None \<and>
   loading (fst (run 10 (exec scenario_failed_reload usePipeline_init)))"
  by (simp add: scenario_failed_reload_def scenario_defs hook_defs)

text \<open>
  C4, amended: in every state an execution reaches, no handle is stored exactly when the
  ready flag is false. For every call of run while no handle is stored, run sets the
  error to "Pipeline not ready" and returns at once with a fulfilled promise: the handle
  is not called, nothing is left suspended, and no other field changes. For every call
  of run while a handle is stored (also during a reload and after a failed reload), run
  does not fail: it clears the error, calls the stored handle and suspends.
\<close>

theorem invoke_not_ready:
  assumes "s = exec es usePipeline_init"
  shows "(\<not> ready s \<longleftrightarrow> pipelineRef s = None) \<and>
         (pipelineRef s = None \<longrightarrow>
            run input s = (s\<lparr>error := Some ''Pipeline not ready''\<rparr>, Returned Fulfilled) \<and>
            error (fst (run input s)) = Some ''Pipeline not ready'' \<and>
            calls (fst (run input s)) = calls s \<and>
            awaiting_call (fst (run input s)) = awaiting_call s \<and>
            loading (fst (run input s)) = loading s \<and>
            snd (run input s) = Returned Fulfilled) \<and>
         (pipelineRef s = Some pipe \<longrightarrow>
            snd (run input s) = Suspended (length (calls s)) \<and>
            calls (fst (run input s)) = calls s @ [(pipe, input)] \<and>
            awaiting_call (fst (run input s)) = awaiting_call s @ [length (calls s)] \<and>
            error (fst (run input s)) = None \<and>
            loading (fst (run input s)))"
proof -
  have "handle_inv s"
    using assms by (simp add: exec_handle_inv init_handle_inv)
  then have a: "\<not> ready s \<longleftrightarrow> pipelineRef s = None"
    by (simp add: handle_inv_def)
  have b: "pipelineRef s = None \<longrightarrow>
            run input s = (s\<lparr>error := Some ''Pipeline not ready''\<rparr>, Returned Fulfilled) \<and>
            error (fst (run input s)) = Some ''Pipeline not ready'' \<and>
            calls (fst (run input s)) = calls s \<and>
            awaiting_call (fst (run input s)) = awaiting_call s \<and>
            loading (fst (run input s)) = loading s \<and>
            snd (run input s) = Returned Fulfilled"
    by (simp add: run_def)
  have c: "pipelineRef s = Some pipe \<longrightarrow>
            snd (run input s) = Suspended (length (calls s)) \<and>
            calls (fst (run input s)) = calls s @ [(pipe, input)] \<and>
            awaiting_call (fst (run input s)) = awaiting_call s @ [length (calls s)] \<and>
            error (fst (run input s)) = None \<and>
            loading (fst (run input s))"
    by (simp add: run_def)
  from a b c show ?thesis by blast
qed

theorem invoke_not_ready_witness:
  "\<not> ready (exec [Render SentimentAnalysis no_options] (usePipeline_init :: (nat, nat, nat) hook)) \<and>
   pipelineRef (exec [Render SentimentAnalysis no_options] (usePipeline_init :: (nat, nat, nat) hook))
     = None \<and>
   error (fst (run (7::nat) (exec [Render SentimentAnalysis no_options]
                               (usePipeline_init :: (nat, nat, nat) hook))))
     = Some ''Pipeline not ready'' \<and>
   calls (fst (run (7::nat) (exec [Render SentimentAnalysis no_options]
                               (usePipeline_init :: (nat, nat, nat) hook)))) = [] \<and>
   snd (run (7::nat) (exec [Render SentimentAnalysis no_options]
                        (usePipeline_init :: (nat, nat, nat) hook)))
     = Returned Fulfilled \<and>
   pipelineRef (exec scenario_ready usePipeline_init) = Some 1 \<and>
   ready (exec scenario_ready usePipeline_init) \<and>
   snd (run 7 (exec scenario_ready usePipeline_init)) = Suspended 0 \<and>
   calls (fst (run 7 (exec scenario_ready usePipeline_init))) = [(1, 7)]"
  using invoke_not_ready
      [of "exec [Render SentimentAnalysis no_options] (usePipeline_init :: (nat, nat, nat) hook)"
          "[Render SentimentAnalysis no_options]" 7 0]
    invoke_not_ready [of "exec scenario_ready usePipeline_init" scenario_ready 7 1]
  by (simp add: scenario_defs hook_defs)

subsection \<open>The busy flag\<close>

text \<open>
  C5 as stated fails when two calls of run overlap: after the first of them settles,
  the second is still outstanding and the busy flag (the loading cell) is false.
\<close>

theorem busy_overlap_counterexample:
  "awaiting_call (exec scenario_overlap usePipeline_init) = [1] \<and>
   \<not> loading (exec scenario_overlap usePipeline_init)"
  by (simp add: scenario_overlap_def scenario_defs hook_defs)

text \<open>
  C5, amended: in every state an execution reaches, busy is false whenever no call of
  run is outstanding; run with a handle sets busy and suspends; run without a handle
  returns at once with busy false; and whenever an outstanding call settles, with success
  or failure, busy is false afterwards. In a gated execution (run is never called while
  an earlier call is outstanding) busy is true exactly while a call is outstanding.
\<close>

theorem busy_flag:
  assumes "s = exec es usePipeline_init"
  shows "(awaiting_call s = [] \<longrightarrow> \<not> loading s) \<and>
         (pipelineRef s \<noteq> None \<longrightarrow> loading (fst (run input s)) \<and>
            snd (run input s) = Suspended (length (calls s))) \<and>
         (pipelineRef s = None \<longrightarrow> \<not> loading (fst (run input s)) \<and>
            snd (run input s) = Returned Fulfilled) \<and>
         (cid \<in> set (awaiting_call s) \<longrightarrow> \<not> loading (step (CallSettles cid settled) s)) \<and>
         (gated es usePipeline_init \<longrightarrow> (loading s \<longleftrightarrow> awaiting_call s \<noteq> []))"
proof -
  have inv: "handle_inv s"
    using assms by (simp add: exec_handle_inv init_handle_inv)
  have a: "awaiting_call s = [] \<longrightarrow> \<not> loading s"
    using inv by (auto simp: handle_inv_def)
  have b: "pipelineRef s \<noteq> None \<longrightarrow> loading (fst (run input s)) \<and>
            snd (run input s) = Suspended (length (calls s))"
    by (auto simp: run_def)
  have c: "pipelineRef s = None \<longrightarrow> \<not> loading (fst (run input s)) \<and>
            snd (run input s) = Returned Fulfilled"
    using inv by (auto simp: run_def handle_inv_def)
  have d: "cid \<in> set (awaiting_call s) \<longrightarrow> \<not> loading (step (CallSettles cid settled) s)"
    by (cases settled) (simp_all add: hook_defs)
  have e: "gated es usePipeline_init \<longrightarrow> (loading s \<longleftrightarrow> awaiting_call s \<noteq> [])"
    using exec_gated_inv [OF init_gated_inv, of es] assms by (simp add: gated_inv_def)
  from a b c d e show ?thesis by blast
qed

theorem busy_flag_witness:
  "gated scenario_running usePipeline_init \<and>
   awaiting_call (exec scenario_running usePipeline_init) = [0] \<and>
   loading (exec scenario_running usePipeline_init) \<and>
   \<not> loading (step (CallSettles 0 (Inl NonError)) (exec scenario_running usePipeline_init)) \<and>
   loading (fst (run 11 (exec scenario_running usePipeline_init))) \<and>
   gated scenario_answered usePipeline_init \<and>
   awaiting_call (exec scenario_answered usePipeline_init) = [] \<and>
   \<not> loading (exec scenario_answered usePipeline_init)"
  using busy_flag [of "exec scenario_running usePipeline_init" scenario_running 11 0 "Inl NonError"]
    busy_flag [of "exec scenario_answered usePipeline_init" scenario_answered 11 0 "Inl NonError"]
  by (simp add: scenario_defs hook_defs)

subsection \<open>A call of the handle that fails\<close>

text \<open>
  C6 as stated fails when the handle rejects with a value that is not an Error, such as
  the string "oom": the error becomes the fixed text "Inference failed", not the value
  the handle failed with.
\<close>

theorem string_rejection_counterexample:
  "pipelineRef (exec scenario_answered usePipeline_init) = Some 1 \<and>
   snd (run 11 (exec scenario_answered usePipeline_init)) = Suspended 1 \<and>
   error (step (CallSettles 1 (Inl (StringValue ''oom'')))
            (fst (run 11 (exec scenario_answered usePipeline_init))))
     = Some ''Inference failed'' \<and>
   error (step (CallSettles 1 (Inl (StringValue ''oom'')))
            (fst (run 11 (exec scenario_answered usePipeline_init))))
     \<noteq> Some ''oom''"
  by (simp add: scenario_defs hook_defs)

text \<open>
  C6, amended: when run is called with a handle stored and that call of the handle
  fails, the error becomes the message of the rejection when the rejection is an Error,
  and the fixed text "Inference failed" when it is any other value; in every case the
  output is the one of before the call, busy is false, and the ready flag and the
  handle are unchanged, so the hook can be used again.
\<close>

theorem invoke_failure:
  assumes "pipelineRef s = Some pipe"
  shows "snd (run input s) = Suspended (length (calls s)) \<and>
         calls (fst (run input s)) = calls s @ [(pipe, input)] \<and>
         error (step (CallSettles (length (calls s)) (Inl (Error m))) (fst (run input s))) = Some m \<and>
         error (step (CallSettles (length (calls s)) (Inl NonError)) (fst (run input s)))
           = Some ''Inference failed'' \<and>
         error (step (CallSettles (length (calls s)) (Inl (StringValue v))) (fst (run input s)))
           = Some ''Inference failed'' \<and>
         output' (step (CallSettles (length (calls s)) (Inl err)) (fst (run input s))) = output' s \<and>
         \<not> loading (step (CallSettles (length (calls s)) (Inl err)) (fst (run input s))) \<and>
         ready (step (CallSettles (length (calls s)) (Inl err)) (fst (run input s))) = ready s \<and>
         pipelineRef (step (CallSettles (length (calls s)) (Inl err)) (fst (run input s))) = Some pipe"
  using assms by (simp add: hook_defs)

theorem invoke_failure_witness:
  "pipelineRef (exec scenario_answered usePipeline_init) = Some 1 \<and>
   output' (exec scenario_answered usePipeline_init) = Some 20 \<and>
   error (step (CallSettles 1 (Inl (Error ''oom''))) (fst (run 11 (exec scenario_answered usePipeline_init))))
     = Some ''oom'' \<and>
   error (step (CallSettles 1 (Inl NonError)) (fst (run 11 (exec scenario_answered usePipeline_init))))
     = Some ''Inference failed'' \<and>
   output' (step (CallSettles 1 (Inl (Error ''oom''))) (fst (run 11 (exec scenario_answered usePipeline_init))))
     = Some 20 \<and>
   \<not> loading (step (CallSettles 1 (Inl (Error ''oom''))) (fst (run 11 (exec scenario_answered usePipeline_init)))) \<and>
   ready (step (CallSettles 1 (Inl (Error ''oom''))) (fst (run 11 (exec scenario_answered usePipeline_init))))"
  using invoke_failure [of "exec scenario_answered usePipeline_init" 1 11 "''oom''" "''oom''" "Error ''oom''"]
  by (simp add: scenario_defs hook_defs)

subsection \<open>Failures never reach the caller\<close>

text \<open>
  C8 as stated fails for a superseded load: its failure is caught, but it is dropped and
  not written to the error.
\<close>

theorem superseded_failure_dropped_counterexample:
  "0 \<in> set (awaiting_load (exec scenario_superseded usePipeline_init)) \<and>
   error (exec (scenario_superseded @ [LoadSettles 0 (Inl (Error ''offline''))]) usePipeline_init) = None \<and>
   error (exec (scenario_superseded @ [LoadSettles 0 (Inl NonError)]) usePipeline_init) = None"
  by (simp add: scenario_defs hook_defs)

text \<open>
  C8, amended: whatever the load or the call of the handle settles with, the resumed
  initPipeline and the resumed run complete normally, so their promises are fulfilled,
  and run before its await either returns a fulfilled promise or suspends: the promise of
  run is never rejected. A failure of the call of the handle is written to the error; a
  failure of a load is written to the error unless its effect run has been cancelled, in
  which case the error is left as it was.
\<close>

theorem failures_caught:
  "promise_of (run_resume settled s) = Fulfilled \<and>
   promise_of (initPipeline_resume eid settled' s) = Fulfilled \<and>
   (snd (run input s) = Returned Fulfilled \<or> snd (run input s) = Suspended (length (calls s))) \<and>
   error (state_of (run_resume (Inl err) s)) = Some (message_or err ''Inference failed'') \<and>
   error (state_of (initPipeline_resume eid (Inl err) s))
     = (if cancelled s eid then error s else Some (message_or err ''Failed to load model''))"
  by (cases settled; cases settled') (simp_all add: hook_defs split: option.splits)

theorem failures_caught_witness:
  "promise_of (run_resume (Inl (Error ''oom'')) (exec scenario_running usePipeline_init)) = Fulfilled \<and>
   error (state_of (run_resume (Inl (Error ''oom'')) (exec scenario_running usePipeline_init)))
     = Some ''oom'' \<and>
   promise_of (initPipeline_resume 1 (Inl NonError) (exec scenario_reconfigured usePipeline_init))
     = Fulfilled \<and>
   error (state_of (initPipeline_resume 1 (Inl NonError) (exec scenario_reconfigured usePipeline_init)))
     = Some ''Failed to load model''"
  using failures_caught [of "Inl (Error ''oom'')" "exec scenario_running usePipeline_init" 0
      "Inl NonError" 1 "Error ''oom''"]
    failures_caught [of "Inl (Error ''oom'')" "exec scenario_reconfigured usePipeline_init" 1
      "Inl NonError" 1 NonError]
  by (simp add: scenario_defs hook_defs)

subsection \<open>run while a new configuration is loading\<close>

text \<open>
  C10: there is an execution (first load succeeded with handle \<open>pipe\<close>, then a render
  with another task whose load is still outstanding and not cancelled) after which run
  does not take the "Pipeline not ready" path: it suspends on a call of \<open>pipe\<close>, the
  handle of the previous configuration. A render never writes the ref.
\<close>

theorem invoke_during_reload:
  "(\<exists>es :: ('h, 'i, 'r) event list.
      awaiting_load (exec es usePipeline_init) = [1] \<and>
      \<not> cancelled (exec es usePipeline_init) 1 \<and>
      phase (exec es usePipeline_init) = Mounted (TextGeneration, None, None) 1 \<and>
      pipelineRef (exec es usePipeline_init) = Some pipe \<and>
      snd (run input (exec es usePipeline_init)) = Suspended 0 \<and>
      calls (fst (run input (exec es usePipeline_init))) = [(pipe, input)] \<and>
      error (fst (run input (exec es usePipeline_init))) = None) \<and>
   (\<forall>task options (s :: ('h, 'i, 'r) hook).
      pipelineRef (render task options s) = pipelineRef s)"
proof
  show "\<exists>es :: ('h, 'i, 'r) event list.
      awaiting_load (exec es usePipeline_init) = [1] \<and>
      \<not> cancelled (exec es usePipeline_init) 1 \<and>
      phase (exec es usePipeline_init) = Mounted (TextGeneration, None, None) 1 \<and>
      pipelineRef (exec es usePipeline_init) = Some pipe \<and>
      snd (run input (exec es usePipeline_init)) = Suspended 0 \<and>
      calls (fst (run input (exec es usePipeline_init))) = [(pipe, input)] \<and>
      error (fst (run input (exec es usePipeline_init))) = None"
    by (rule exI [of _ "[Render SentimentAnalysis no_options, LoadSettles 0 (Inr pipe),
                         Render TextGeneration no_options]"])
       (simp add: scenario_defs hook_defs)
  show "\<forall>task options (s :: ('h, 'i, 'r) hook).
      pipelineRef (render task options s) = pipelineRef s"
    by (simp add: hook_defs split: phase.splits)
qed

theorem invoke_during_reload_witness:
  "pipelineRef (render TextGeneration no_options (exec scenario_ready usePipeline_init)) = Some 1 \<and>
   awaiting_load (exec scenario_reconfigured usePipeline_init) = [1] \<and>
   snd (run 10 (exec scenario_reconfigured usePipeline_init)) = Suspended 0 \<and>
   calls (fst (run 10 (exec scenario_reconfigured usePipeline_init))) = [(1, 10)]"
  using invoke_during_reload [of "1::nat" "10::nat"]
  by (simp add: scenario_defs hook_defs)

end
